theory Spec2Isabelle
  imports Main "HOL-Library.AList"
begin

section \<open>Strings and \<open>JSON.stringify\<close>\<close>

text \<open>
  JavaScript strings are modelled as \<^typ>\<open>string\<close>, read as the UTF-8 bytes of the text.
  The form data is a plain object whose keys and values are strings; it is an
  association list in property creation order, which is the order
  \<open>JSON.stringify\<close> and the object spread enumerate (none of the keys that occur
  is an array index).

  \<open>JSON.stringify\<close> is the platform's, not the repository's; it is written out after
  ECMA-262 (QuoteJSONString, SerializeJSONObject with no indentation) for an object
  whose property values are all strings. Bytes above 0x7F pass through unchanged.
\<close>

definition hexdigit :: "nat \<Rightarrow> char" where
  "hexdigit n = ''0123456789abcdef'' ! (n mod 16)"

definition UnicodeEscape :: "char \<Rightarrow> string" where
  "UnicodeEscape c =
     [CHR 0x5C, CHR ''u'', CHR ''0'', CHR ''0'',
      hexdigit ((of_char c :: nat) div 16), hexdigit ((of_char c :: nat) mod 16)]"

definition QuoteJSONChar :: "char \<Rightarrow> string" where
  "QuoteJSONChar c =
     (if c = CHR 0x08 then [CHR 0x5C, CHR ''b'']
      else if c = CHR 0x09 then [CHR 0x5C, CHR ''t'']
      else if c = CHR 0x0A then [CHR 0x5C, CHR ''n'']
      else if c = CHR 0x0C then [CHR 0x5C, CHR ''f'']
      else if c = CHR 0x0D then [CHR 0x5C, CHR ''r'']
      else if c = CHR 0x22 then [CHR 0x5C, CHR 0x22]
      else if c = CHR 0x5C then [CHR 0x5C, CHR 0x5C]
      else if (of_char c :: nat) < 0x20 then UnicodeEscape c
      else [c])"

definition QuoteJSONString :: "string \<Rightarrow> string" where
  "QuoteJSONString s = CHR 0x22 # concat (map QuoteJSONChar s) @ [CHR 0x22]"

definition SerializeJSONProperty :: "string \<times> string \<Rightarrow> string" where
  "SerializeJSONProperty p = QuoteJSONString (fst p) @ '':'' @ QuoteJSONString (snd p)"

fun join :: "string \<Rightarrow> string list \<Rightarrow> string" where
  "join sep [] = []"
| "join sep [x] = x"
| "join sep (x # y # ys) = x @ sep @ join sep (y # ys)"

definition JSON_stringify :: "(string \<times> string) list \<Rightarrow> string" where
  "JSON_stringify obj =
     (if obj = [] then ''{}''
      else ''{'' @ join '','' (map SerializeJSONProperty obj) @ ''}'')"


section \<open>What a handler does: actions\<close>

text \<open>
  A handler is modelled by the list of the calls it makes, in source order:
  \<open>e.preventDefault()\<close>, the state setters of the two \<open>useState\<close> hooks,
  \<open>fetch\<close> and \<open>console.error\<close>. The first example's status setter is
  \<open>setSubmissionStatus\<close> (the status is \<open>null\<close> or a string), the second example's is
  \<open>setStatus\<close> (always a string).
\<close>

record Request =
  url :: string
  http_method :: string
  headers :: "(string \<times> string) list"
  body :: string

text \<open>
  The response of \<open>fetch\<close>: the handler reads \<open>response.ok\<close> and, in the first
  example, awaits \<open>response.json()\<close>, which either resolves with the parsed body
  (\<open>Inr\<close>) or rejects (\<open>Inl\<close>). A settled \<open>fetch\<close> is \<open>Inr response\<close>, or \<open>Inl error\<close>
  when the call throws.
\<close>

record Response =
  ok :: bool
  json :: "string + string"

type_synonym fetch_result = "string + Response"

datatype action =
    PreventDefault
  | SetFormData "(string \<times> string) list"
  | SetSubmissionStatus "string option"
  | SetStatus string
  | Fetch Request
  | ConsoleError string string

text \<open>The \<open>target\<close> of a change event: \<open>e.target.name\<close> and \<open>e.target.value\<close>.\<close>

record ChangeEvent =
  target_name :: string
  target_value :: string

text \<open>What a render shows of the form: the three controls with their
  \<open>name\<close> and \<open>value\<close> attributes, the submit button and the status paragraphs.\<close>

record View =
  inputs :: "(string \<times> string option) list"
  button_disabled :: bool
  button_label :: string
  paragraphs :: "string list"

definition fetches :: "action list \<Rightarrow> Request list" where
  "fetches acts = concat (map (\<lambda>a. case a of Fetch r \<Rightarrow> [r] | _ \<Rightarrow> []) acts)"

text \<open>The object \<open>{ name: n, email: e, message: m }\<close>.\<close>

definition form_object :: "string \<Rightarrow> string \<Rightarrow> string \<Rightarrow> (string \<times> string) list" where
  "form_object n e m = [(''name'', n), (''email'', e), (''message'', m)]"


section \<open>The first example: \<open>ContactForm\<close> (buildingmanual.md, lines 105-206)\<close>

record ContactForm =
  formData :: "(string \<times> string) list"
  submissionStatus :: "string option"

text \<open>The two \<open>useState\<close> initial values (lines 109-114).\<close>

definition ContactForm_init :: ContactForm where
  "ContactForm_init = \<lparr>formData = form_object '''' '''' '''', submissionStatus = None\<rparr>"

fun perform :: "action \<Rightarrow> ContactForm \<Rightarrow> ContactForm" where
  "perform (SetFormData d) c = c\<lparr>formData := d\<rparr>"
| "perform (SetSubmissionStatus s) c = c\<lparr>submissionStatus := s\<rparr>"
| "perform _ c = c"

text \<open>\<open>handleChange\<close> (lines 116-122): \<open>{...formData, [name]: value}\<close> keeps the place
  of a key that exists and appends a new one.\<close>

definition handleChange :: "ContactForm \<Rightarrow> ChangeEvent \<Rightarrow> action list" where
  "handleChange c e =
     [SetFormData (AList.update (target_name e) (target_value e) (formData c))]"

text \<open>\<open>handleSubmit\<close> (lines 124-159), cut at its two \<open>await\<close>s. Up to
  \<open>await fetch(...)\<close>:\<close>

definition handleSubmit_start :: "ContactForm \<Rightarrow> action list" where
  "handleSubmit_start c =
     [PreventDefault,
      SetSubmissionStatus (Some ''submitting''),
      Fetch \<lparr>url = ''YOUR_BACKEND_API_ENDPOINT/submit-form'',
             http_method = ''POST'',
             headers = [(''Content-Type'', ''application/json'')],
             body = JSON_stringify (formData c)\<rparr>]"

text \<open>The branch \<open>response.ok\<close> (lines 141-142).\<close>

definition handleSubmit_ok :: "action list" where
  "handleSubmit_ok = [SetSubmissionStatus (Some ''success''), SetFormData (form_object '''' '''' '''')]"

text \<open>The \<open>catch\<close> block (lines 156-157).\<close>

definition handleSubmit_catch :: "string \<Rightarrow> action list" where
  "handleSubmit_catch error =
     [SetSubmissionStatus (Some ''error''), ConsoleError ''Network or other error:'' error]"

text \<open>The \<open>else\<close> branch once \<open>await response.json()\<close> has settled (lines 144-146);
  a rejection is thrown inside the \<open>try\<close> and lands in the \<open>catch\<close> block.\<close>

fun handleSubmit_json :: "string + string \<Rightarrow> action list" where
  "handleSubmit_json (Inr errorData) =
     [SetSubmissionStatus (Some ''error''), ConsoleError ''Form submission error:'' errorData]"
| "handleSubmit_json (Inl error) = handleSubmit_catch error"

text \<open>Everything after \<open>await fetch(...)\<close> has settled, with no other event in between.\<close>

fun handleSubmit_settled :: "fetch_result \<Rightarrow> action list" where
  "handleSubmit_settled (Inl error) = handleSubmit_catch error"
| "handleSubmit_settled (Inr response) =
     (if ok response then handleSubmit_ok else handleSubmit_json (json response))"

definition handleSubmit :: "ContactForm \<Rightarrow> fetch_result \<Rightarrow> action list" where
  "handleSubmit c r = handleSubmit_start c @ handleSubmit_settled r"

text \<open>The returned form (lines 161-202).\<close>

definition render :: "ContactForm \<Rightarrow> View" where
  "render c =
     \<lparr>inputs = [(''name'', map_of (formData c) ''name''),
                (''email'', map_of (formData c) ''email''),
                (''message'', map_of (formData c) ''message'')],
      button_disabled = (submissionStatus c = Some ''submitting''),
      button_label = (if submissionStatus c = Some ''submitting'' then ''Sending...'' else ''Submit''),
      paragraphs =
        (if submissionStatus c = Some ''success'' then [''Message sent successfully!''] else []) @
        (if submissionStatus c = Some ''error''
         then [''Error sending message. Please try again.''] else [])\<rparr>"

subsection \<open>The component on the event loop\<close>

text \<open>
  Between two events the component is its state and the invocations of
  \<open>handleSubmit\<close> that are suspended at an \<open>await\<close>. An event is a change of one of the
  rendered controls, an activation of the submit button (which the browser does not
  deliver while the button is \<open>disabled\<close>), or the settling of a promise one of the
  suspended invocations awaits. The browser's own validation (\<open>required\<close>,
  \<open>type="email"\<close>) can only withhold a \<open>Submit\<close>; it is not modelled, so the runs below
  include every run of the component.
\<close>

datatype await_point = AwaitFetch | AwaitJson Response

record System =
  component :: ContactForm
  suspended :: "await_point list"

datatype event =
    Change ChangeEvent
  | Submit
  | FetchSettled nat fetch_result
  | JsonSettled nat

definition System_init :: System where
  "System_init = \<lparr>component = ContactForm_init, suspended = []\<rparr>"

definition remove_nth :: "nat \<Rightarrow> 'a list \<Rightarrow> 'a list" where
  "remove_nth i xs = take i xs @ drop (Suc i) xs"

definition resume :: "System \<Rightarrow> nat \<Rightarrow> action list \<Rightarrow> System" where
  "resume s i acts =
     \<lparr>component = fold perform acts (component s), suspended = remove_nth i (suspended s)\<rparr>"

fun fire :: "System \<Rightarrow> event \<Rightarrow> System option" where
  "fire s (Change e) =
     (if target_name e \<in> set (map fst (inputs (render (component s))))
      then Some (s\<lparr>component := fold perform (handleChange (component s) e) (component s)\<rparr>)
      else None)"
| "fire s Submit =
     (if button_disabled (render (component s)) then None
      else Some \<lparr>component = fold perform (handleSubmit_start (component s)) (component s),
                 suspended = suspended s @ [AwaitFetch]\<rparr>)"
| "fire s (FetchSettled i r) =
     (if i < length (suspended s) \<and> suspended s ! i = AwaitFetch
      then (case r of
              Inl error \<Rightarrow> Some (resume s i (handleSubmit_catch error))
            | Inr response \<Rightarrow>
                if ok response then Some (resume s i handleSubmit_ok)
                else Some (s\<lparr>suspended := (suspended s)[i := AwaitJson response]\<rparr>))
      else None)"
| "fire s (JsonSettled i) =
     (if i < length (suspended s)
      then (case suspended s ! i of
              AwaitJson response \<Rightarrow> Some (resume s i (handleSubmit_json (json response)))
            | AwaitFetch \<Rightarrow> None)
      else None)"

fun run :: "System \<Rightarrow> event list \<Rightarrow> System option" where
  "run s [] = Some s"
| "run s (ev # evs) = (case fire s ev of None \<Rightarrow> None | Some s' \<Rightarrow> run s' evs)"

text \<open>The transitions of the status as the specification lists them
  (\<open>idle \<rightarrow> submitting \<rightarrow> {success, error}\<close> and \<open>error \<rightarrow> submitting\<close>); idle is the
  initial \<open>null\<close>.\<close>

definition spec_transition :: "string option \<Rightarrow> string option \<Rightarrow> bool" where
  "spec_transition a b =
     ((a, b) \<in> {(None, Some ''submitting''),
                (Some ''submitting'', Some ''success''),
                (Some ''submitting'', Some ''error''),
                (Some ''error'', Some ''submitting'')})"


section \<open>The second example: \<open>frontend/src/ContactForm.jsx\<close> (buildingmanual.md, lines 323-405)\<close>

record ContactForm2 =
  formData2 :: "(string \<times> string) list"
  status :: string

definition ContactForm2_init :: ContactForm2 where
  "ContactForm2_init = \<lparr>formData2 = form_object '''' '''' '''', status = ''''\<rparr>"

fun perform2 :: "action \<Rightarrow> ContactForm2 \<Rightarrow> ContactForm2" where
  "perform2 (SetFormData d) c = c\<lparr>formData2 := d\<rparr>"
| "perform2 (SetStatus s) c = c\<lparr>status := s\<rparr>"
| "perform2 _ c = c"

text \<open>\<open>handleChange\<close> (lines 335-337).\<close>

definition handleChange2 :: "ContactForm2 \<Rightarrow> ChangeEvent \<Rightarrow> action list" where
  "handleChange2 c e =
     [SetFormData (AList.update (target_name e) (target_value e) (formData2 c))]"

text \<open>\<open>handleSubmit\<close> (lines 339-362) has one \<open>await\<close>.\<close>

definition handleSubmit2_start :: "ContactForm2 \<Rightarrow> action list" where
  "handleSubmit2_start c =
     [PreventDefault,
      SetStatus ''Sending...'',
      Fetch \<lparr>url = ''http://localhost:5000/contact'',
             http_method = ''POST'',
             headers = [(''Content-Type'', ''application/json'')],
             body = JSON_stringify (formData2 c)\<rparr>]"

fun handleSubmit2_settled :: "fetch_result \<Rightarrow> action list" where
  "handleSubmit2_settled (Inl error) =
     [ConsoleError ''Error submitting form:'' error, SetStatus ''An error occurred.'']"
| "handleSubmit2_settled (Inr response) =
     (if ok response
      then [SetStatus ''Message sent successfully!'', SetFormData (form_object '''' '''' '''')]
      else [SetStatus ''Failed to send message.''])"

definition handleSubmit2 :: "ContactForm2 \<Rightarrow> fetch_result \<Rightarrow> action list" where
  "handleSubmit2 c r = handleSubmit2_start c @ handleSubmit2_settled r"

text \<open>The returned form (lines 364-401): the button has no \<open>disabled\<close> attribute, and
  the status is shown as it is when it is not empty.\<close>

definition render2 :: "ContactForm2 \<Rightarrow> View" where
  "render2 c =
     \<lparr>inputs = [(''name'', map_of (formData2 c) ''name''),
                (''email'', map_of (formData2 c) ''email''),
                (''message'', map_of (formData2 c) ''message'')],
      button_disabled = False,
      button_label = ''Send Message'',
      paragraphs = (if status c \<noteq> '''' then [status c] else [])\<rparr>"

record System2 =
  component2 :: ContactForm2
  in_flight :: nat

datatype event2 =
    Change2 ChangeEvent
  | Submit2
  | FetchSettled2 fetch_result

definition System2_init :: System2 where
  "System2_init = \<lparr>component2 = ContactForm2_init, in_flight = 0\<rparr>"

fun fire2 :: "System2 \<Rightarrow> event2 \<Rightarrow> System2 option" where
  "fire2 s (Change2 e) =
     (if target_name e \<in> set (map fst (inputs (render2 (component2 s))))
      then Some (s\<lparr>component2 := fold perform2 (handleChange2 (component2 s) e) (component2 s)\<rparr>)
      else None)"
| "fire2 s Submit2 =
     (if button_disabled (render2 (component2 s)) then None
      else Some \<lparr>component2 = fold perform2 (handleSubmit2_start (component2 s)) (component2 s),
                 in_flight = Suc (in_flight s)\<rparr>)"
| "fire2 s (FetchSettled2 r) =
     (if 0 < in_flight s
      then Some \<lparr>component2 = fold perform2 (handleSubmit2_settled r) (component2 s),
                 in_flight = in_flight s - 1\<rparr>
      else None)"

fun run2 :: "System2 \<Rightarrow> event2 list \<Rightarrow> System2 option" where
  "run2 s [] = Some s"
| "run2 s (ev # evs) = (case fire2 s ev of None \<Rightarrow> None | Some s' \<Rightarrow> run2 s' evs)"


section \<open>The landing page: \<open>App\<close> (src/App.jsx)\<close>

text \<open>A rendered tree: elements with their attributes and children, text, and the
  fragment \<open><>...</>\<close>. The two imports stand for the assets they name.\<close>

datatype jsx =
    Element string "(string \<times> string) list" "jsx list"
  | Text string
  | Fragment "jsx list"

definition logo :: string where
  "logo = ''./logos/logo4.png''"

definition heroImage :: string where
  "heroImage = ''./images/Gemini_Generated_Image_h25qwth25qwth25q-Photoroom 2.png''"

definition navButton :: jsx where
  "navButton =
     Element ''div'' [(''className'', ''nav-hm-button-container'')]
       [Element ''div'' [(''className'', ''nav-hm-button on'')]
          [Element ''div'' [(''className'', ''nav-hm-line'')] [],
           Element ''div'' [(''className'', ''nav-hm-line'')] [],
           Element ''div'' [(''className'', ''nav-hm-line'')] []]]"

definition App :: jsx where
  "App =
     Fragment
       [Element ''div'' [(''className'', ''header'')]
          [Element ''div'' [(''className'', ''logo'')]
             [Element ''img'' [(''className'', ''logo-photo''), (''src'', logo), (''alt'', ''logo'')] [],
              Element ''h1'' [(''className'', ''logo-text'')] [Text ''Broodpro'']],
           Element ''nav'' [(''className'', ''nav-lists'')]
             [Element ''p'' [(''className'', ''nav-item'')] [Text ''Apply now''],
              navButton]],
        Element ''body'' []
          [Element ''div'' [(''className'', ''hero-container'')]
             [Element ''div'' [(''className'', ''hero-section'')]
                [Element ''div'' [(''className'', ''hero-text-container'')]
                   [Element ''h1'' [(''className'', ''hero-text'')] [Text ''Stay in''],
                    Element ''h1'' [(''className'', ''hero-text'')] [Text ''school''],
                    Element ''h1'' [(''className'', ''hero-text'')] [Text ''peeps'']],
                 Element ''p'' [(''className'', ''hero-subtext'')]
                   [Text ''And yes. We can help make that a reality.'']],
              Element ''div'' [(''className'', ''button-container'')]
                [Element ''p'' [(''className'', ''button-text'')] [Text ''Join the program'']]]],
        Element ''div'' [(''className'', ''hero-image'')]
          [Element ''img'' [(''src'', heroImage), (''alt'', ''graduants'')] []]]"

text \<open>The text nodes of a tree, and the \<open>src\<close> of its \<open>img\<close> elements, in document order.\<close>

fun texts :: "jsx \<Rightarrow> string list" where
  "texts (Text s) = [s]"
| "texts (Element tag attrs children) = concat (map texts children)"
| "texts (Fragment children) = concat (map texts children)"

fun images :: "jsx \<Rightarrow> string list" where
  "images (Text s) = []"
| "images (Element tag attrs children) =
     (if tag = ''img'' then map snd (filter (\<lambda>a. fst a = ''src'') attrs) else []) @
     concat (map images children)"
| "images (Fragment children) = concat (map images children)"


section \<open>Scenarios, invariants and the documented request\<close>

text \<open>A user fills the three controls and activates the submit button; a submission is
  that followed by the settling of its \<open>fetch\<close> with a response.\<close>

definition fill_and_submit :: "string \<Rightarrow> string \<Rightarrow> string \<Rightarrow> event list" where
  "fill_and_submit n e m =
     [Change \<lparr>target_name = ''name'', target_value = n\<rparr>,
      Change \<lparr>target_name = ''email'', target_value = e\<rparr>,
      Change \<lparr>target_name = ''message'', target_value = m\<rparr>,
      Submit]"

definition submission :: "string \<Rightarrow> string \<Rightarrow> string \<Rightarrow> Response \<Rightarrow> event list" where
  "submission n e m response = fill_and_submit n e m @ [FetchSettled 0 (Inr response)]"

definition fill_and_submit2 :: "string \<Rightarrow> string \<Rightarrow> string \<Rightarrow> event2 list" where
  "fill_and_submit2 n e m =
     [Change2 \<lparr>target_name = ''name'', target_value = n\<rparr>,
      Change2 \<lparr>target_name = ''email'', target_value = e\<rparr>,
      Change2 \<lparr>target_name = ''message'', target_value = m\<rparr>,
      Submit2]"

text \<open>What holds between any two events of the first example: at most one invocation
  of \<open>handleSubmit\<close> is suspended, one is suspended exactly while the status is
  \<open>'submitting'\<close>, the status is one of four values, and the form data has the three
  keys in their order.\<close>

definition System_inv :: "System \<Rightarrow> bool" where
  "System_inv s =
     ((suspended s = [] \<or> (\<exists>p. suspended s = [p]))
      \<and> (submissionStatus (component s) = Some ''submitting'') = (suspended s \<noteq> [])
      \<and> submissionStatus (component s) \<in> {None, Some ''submitting'', Some ''success'', Some ''error''}
      \<and> map fst (formData (component s)) = [''name'', ''email'', ''message''])"

definition System2_inv :: "System2 \<Rightarrow> bool" where
  "System2_inv s =
     (status (component2 s) \<in> {'''', ''Sending...'', ''Message sent successfully!'',
                               ''Failed to send message.'', ''An error occurred.''}
      \<and> map fst (formData2 (component2 s)) = [''name'', ''email'', ''message''])"

text \<open>The request as the specification documents it: \<open>POST <endpoint>\<close>, header
  \<open>Content-Type: application/json\<close>, body the JSON object with the members \<open>name\<close>,
  \<open>email\<close> and \<open>message\<close>.\<close>

definition spec_body :: "string \<Rightarrow> string \<Rightarrow> string \<Rightarrow> string" where
  "spec_body n e m =
     ''{\"name\":'' @ QuoteJSONString n @ '',\"email\":'' @ QuoteJSONString e
       @ '',\"message\":'' @ QuoteJSONString m @ ''}''"

definition spec_request :: "string \<Rightarrow> string \<Rightarrow> string \<Rightarrow> string \<Rightarrow> Request" where
  "spec_request endpoint n e m =
     \<lparr>url = endpoint,
      http_method = ''POST'',
      headers = [(''Content-Type'', ''application/json'')],
      body = spec_body n e m\<rparr>"


section \<open>Auxiliary facts\<close>

lemma System_inv_init: "System_inv System_init"
  by (simp add: System_inv_def System_init_def ContactForm_init_def form_object_def)

lemma perform_json:
  "fold perform (handleSubmit_json j) c = c\<lparr>submissionStatus := Some ''error''\<rparr>"
  by (cases j) (simp_all add: handleSubmit_catch_def)

lemma System_inv_fire:
  assumes "System_inv s" and "fire s ev = Some s'"
  shows "System_inv s'"
proof (cases ev)
  case (Change e)
  with assms show ?thesis
    by (auto simp: System_inv_def handleChange_def render_def AList.update_keys split: if_splits)
next
  case Submit
  with assms show ?thesis
    by (auto simp: System_inv_def handleSubmit_start_def render_def split: if_splits)
next
  case (FetchSettled i r)
  with assms show ?thesis
    by (auto simp: System_inv_def resume_def remove_nth_def handleSubmit_ok_def
        handleSubmit_catch_def form_object_def split: if_splits sum.splits)
next
  case (JsonSettled i)
  with assms show ?thesis
    by (auto simp: System_inv_def resume_def remove_nth_def perform_json
        split: if_splits await_point.splits)
qed

lemma System_inv_run:
  "System_inv s \<Longrightarrow> run s evs = Some s' \<Longrightarrow> System_inv s'"
proof (induction evs arbitrary: s)
  case Nil
  then show ?case by simp
next
  case (Cons ev evs)
  then show ?case by (auto split: option.splits dest: System_inv_fire)
qed

lemma reachable_inv: "run System_init evs = Some s \<Longrightarrow> System_inv s"
  using System_inv_run [OF System_inv_init] .

lemma System2_inv_init: "System2_inv System2_init"
  by (simp add: System2_inv_def System2_init_def ContactForm2_init_def form_object_def)

lemma System2_inv_fire:
  assumes "System2_inv s" and "fire2 s ev = Some s'"
  shows "System2_inv s'"
proof (cases ev)
  case (Change2 e)
  with assms show ?thesis
    by (auto simp: System2_inv_def handleChange2_def render2_def AList.update_keys
        split: if_splits)
next
  case Submit2
  with assms show ?thesis
    by (auto simp: System2_inv_def handleSubmit2_start_def render2_def split: if_splits)
next
  case (FetchSettled2 r)
  with assms show ?thesis
    by (cases r) (auto simp: System2_inv_def form_object_def split: if_splits)
qed

lemma System2_inv_run:
  "System2_inv s \<Longrightarrow> run2 s evs = Some s' \<Longrightarrow> System2_inv s'"
proof (induction evs arbitrary: s)
  case Nil
  then show ?case by simp
next
  case (Cons ev evs)
  then show ?case by (auto split: option.splits dest: System2_inv_fire)
qed

lemma reachable_inv2: "run2 System2_init evs = Some s \<Longrightarrow> System2_inv s"
  using System2_inv_run [OF System2_inv_init] .

lemma three_fields:
  "map fst fd = [''name'', ''email'', ''message''] \<Longrightarrow> \<exists>n e m. fd = form_object n e m"
  unfolding form_object_def
  by (cases fd; cases "tl fd"; cases "tl (tl fd)"; cases "tl (tl (tl fd))") auto

lemma JSON_stringify_object: "JSON_stringify (form_object n e m) = spec_body n e m"
  by (simp add: JSON_stringify_def SerializeJSONProperty_def QuoteJSONString_def
      QuoteJSONChar_def form_object_def spec_body_def)

lemma fetches_append: "fetches (xs @ ys) = fetches xs @ fetches ys"
  by (simp add: fetches_def)

lemma fetches_settled: "fetches (handleSubmit_settled r) = []"
proof (cases r)
  case (Inl error)
  then show ?thesis by (simp add: fetches_def handleSubmit_catch_def)
next
  case (Inr response)
  then show ?thesis
    by (cases "json response")
      (simp_all add: fetches_def handleSubmit_catch_def handleSubmit_ok_def)
qed

lemma fetches_settled2: "fetches (handleSubmit2_settled r) = []"
  by (cases r) (simp_all add: fetches_def)

lemma run_append:
  "run s (xs @ ys) = (case run s xs of None \<Rightarrow> None | Some s' \<Rightarrow> run s' ys)"
  by (induction xs arbitrary: s) (auto split: option.splits)

lemma run_fill_and_submit:
  assumes "map fst (formData (component s)) = [''name'', ''email'', ''message'']"
    and "submissionStatus (component s) \<noteq> Some ''submitting''"
  shows "run s (fill_and_submit n e m) =
           Some \<lparr>component = \<lparr>formData = form_object n e m, submissionStatus = Some ''submitting''\<rparr>,
                  suspended = suspended s @ [AwaitFetch]\<rparr>"
proof -
  from three_fields [OF assms(1)] obtain a b c
    where fd: "formData (component s) = form_object a b c"
    by blast
  show ?thesis
    using assms(2)
    by (simp add: fill_and_submit_def render_def handleChange_def handleSubmit_start_def fd
        form_object_def)
qed

lemma run2_fill_and_submit2:
  assumes "map fst (formData2 (component2 s)) = [''name'', ''email'', ''message'']"
  shows "run2 s (fill_and_submit2 n e m) =
           Some \<lparr>component2 = \<lparr>formData2 = form_object n e m, status = ''Sending...''\<rparr>,
                  in_flight = Suc (in_flight s)\<rparr>"
proof -
  from three_fields [OF assms(1)] obtain a b c
    where fd: "formData2 (component2 s) = form_object a b c"
    by blast
  show ?thesis
    by (simp add: fill_and_submit2_def render2_def handleChange2_def handleSubmit2_start_def fd
        form_object_def)
qed

lemma run_init_fill_and_submit:
  "run System_init (fill_and_submit n e m) =
     Some \<lparr>component = \<lparr>formData = form_object n e m, submissionStatus = Some ''submitting''\<rparr>,
            suspended = [AwaitFetch]\<rparr>"
  using run_fill_and_submit [of System_init n e m]
  by (simp add: System_init_def ContactForm_init_def form_object_def)

lemma run2_init_fill_and_submit2:
  "run2 System2_init (fill_and_submit2 n e m) =
     Some \<lparr>component2 = \<lparr>formData2 = form_object n e m, status = ''Sending...''\<rparr>, in_flight = 1\<rparr>"
  using run2_fill_and_submit2 [of System2_init n e m]
  by (simp add: System2_init_def ContactForm2_init_def form_object_def)


section \<open>Field changes\<close>

text \<open>
  Claim C9. In both examples \<open>handleChange\<close> makes one call, \<open>setFormData\<close>, and the new
  form data is the old one with the field named by \<open>e.target.name\<close> set to
  \<open>e.target.value\<close>: every other field reads as before, and the submission status is the
  one before the event.
\<close>

theorem handleChange_frame:
  "map_of (formData (fold perform (handleChange c e) c))
     = (map_of (formData c))(target_name e \<mapsto> target_value e)
   \<and> submissionStatus (fold perform (handleChange c e) c) = submissionStatus c
   \<and> map_of (formData2 (fold perform2 (handleChange2 c2 e) c2))
     = (map_of (formData2 c2))(target_name e \<mapsto> target_value e)
   \<and> status (fold perform2 (handleChange2 c2 e) c2) = status c2"
  by (simp add: handleChange_def handleChange2_def AList.update_conv')


section \<open>The outcome of a submission\<close>

text \<open>
  Claim C1. When the \<open>POST\<close> resolves with \<open>response.ok\<close>, the status, which
  \<open>handleSubmit\<close> set to \<open>'submitting'\<close> before the request, becomes \<open>'success'\<close> and the
  three fields are set to the empty string, whatever the component state \<open>c'\<close> is when the
  request settles. The second example does the same with its status strings
  \<open>'Sending...'\<close> and \<open>'Message sent successfully!'\<close>.
\<close>

theorem submit_success:
  "ok response \<Longrightarrow>
     submissionStatus (fold perform (handleSubmit_start c) c) = Some ''submitting''
   \<and> fold perform (handleSubmit_settled (Inr response)) c'
       = \<lparr>formData = [(''name'', ''''), (''email'', ''''), (''message'', '''')],
          submissionStatus = Some ''success''\<rparr>
   \<and> fold perform (handleSubmit c (Inr response)) c
       = \<lparr>formData = [(''name'', ''''), (''email'', ''''), (''message'', '''')],
          submissionStatus = Some ''success''\<rparr>
   \<and> status (fold perform2 (handleSubmit2_start c2) c2) = ''Sending...''
   \<and> fold perform2 (handleSubmit2_settled (Inr response)) c2'
       = \<lparr>formData2 = [(''name'', ''''), (''email'', ''''), (''message'', '''')],
          status = ''Message sent successfully!''\<rparr>
   \<and> fold perform2 (handleSubmit2 c2 (Inr response)) c2
       = \<lparr>formData2 = [(''name'', ''''), (''email'', ''''), (''message'', '''')],
          status = ''Message sent successfully!''\<rparr>"
  by (simp add: handleSubmit_def handleSubmit_start_def handleSubmit_ok_def form_object_def
      handleSubmit2_def handleSubmit2_start_def)

theorem submit_success_witness:
  "ok \<lparr>ok = True, json = Inr ''{}''\<rparr>
   \<and> fold perform
        (handleSubmit \<lparr>formData = form_object ''Ada'' ''ada@example.org'' ''Hello'',
                       submissionStatus = None\<rparr>
           (Inr \<lparr>ok = True, json = Inr ''{}''\<rparr>))
        \<lparr>formData = form_object ''Ada'' ''ada@example.org'' ''Hello'', submissionStatus = None\<rparr>
       = \<lparr>formData = [(''name'', ''''), (''email'', ''''), (''message'', '''')],
          submissionStatus = Some ''success''\<rparr>
   \<and> fold perform2
        (handleSubmit2 \<lparr>formData2 = form_object ''Ada'' ''ada@example.org'' ''Hello'', status = ''''\<rparr>
           (Inr \<lparr>ok = True, json = Inr ''{}''\<rparr>))
        \<lparr>formData2 = form_object ''Ada'' ''ada@example.org'' ''Hello'', status = ''''\<rparr>
       = \<lparr>formData2 = [(''name'', ''''), (''email'', ''''), (''message'', '''')],
          status = ''Message sent successfully!''\<rparr>"
proof -
  have h: "ok \<lparr>ok = True, json = Inr ''{}''\<rparr>" by simp
  from submit_success [OF h,
      of "\<lparr>formData = form_object ''Ada'' ''ada@example.org'' ''Hello'', submissionStatus = None\<rparr>"
         _ "\<lparr>formData2 = form_object ''Ada'' ''ada@example.org'' ''Hello'', status = ''''\<rparr>"]
  show ?thesis using h by blast
qed

text \<open>
  Claim C2. When the \<open>POST\<close> resolves with a response that is not \<open>ok\<close>, the status
  becomes \<open>'error'\<close> (the second example's \<open>'Failed to send message.'\<close>) and the form data
  is the one before: neither after the request settles (from any state \<open>c'\<close>) nor over
  the whole handler does \<open>handleSubmit\<close> change a field.
\<close>

theorem submit_failure_keeps_fields:
  "\<not> ok response \<Longrightarrow>
     submissionStatus (fold perform (handleSubmit_settled (Inr response)) c') = Some ''error''
   \<and> formData (fold perform (handleSubmit_settled (Inr response)) c') = formData c'
   \<and> submissionStatus (fold perform (handleSubmit c (Inr response)) c) = Some ''error''
   \<and> formData (fold perform (handleSubmit c (Inr response)) c) = formData c
   \<and> status (fold perform2 (handleSubmit2_settled (Inr response)) c2') = ''Failed to send message.''
   \<and> formData2 (fold perform2 (handleSubmit2_settled (Inr response)) c2') = formData2 c2'
   \<and> status (fold perform2 (handleSubmit2 c2 (Inr response)) c2) = ''Failed to send message.''
   \<and> formData2 (fold perform2 (handleSubmit2 c2 (Inr response)) c2) = formData2 c2"
  by (simp add: handleSubmit_def handleSubmit_start_def perform_json
      handleSubmit2_def handleSubmit2_start_def)

theorem submit_failure_keeps_fields_witness:
  "\<not> ok \<lparr>ok = False, json = Inr ''{}''\<rparr>
   \<and> submissionStatus (fold perform
        (handleSubmit \<lparr>formData = form_object ''Ada'' ''ada@example.org'' ''Hello'',
                       submissionStatus = None\<rparr>
           (Inr \<lparr>ok = False, json = Inr ''{}''\<rparr>))
        \<lparr>formData = form_object ''Ada'' ''ada@example.org'' ''Hello'', submissionStatus = None\<rparr>)
       = Some ''error''
   \<and> formData (fold perform
        (handleSubmit \<lparr>formData = form_object ''Ada'' ''ada@example.org'' ''Hello'',
                       submissionStatus = None\<rparr>
           (Inr \<lparr>ok = False, json = Inr ''{}''\<rparr>))
        \<lparr>formData = form_object ''Ada'' ''ada@example.org'' ''Hello'', submissionStatus = None\<rparr>)
       = [(''name'', ''Ada''), (''email'', ''ada@example.org''), (''message'', ''Hello'')]"
proof -
  have h: "\<not> ok \<lparr>ok = False, json = Inr ''{}''\<rparr>" by simp
  from submit_failure_keeps_fields [OF h,
      of _ "\<lparr>formData = form_object ''Ada'' ''ada@example.org'' ''Hello'', submissionStatus = None\<rparr>"]
  show ?thesis using h by (simp add: form_object_def)
qed

text \<open>In the second example a thrown \<open>fetch\<close> and a response that is not \<open>ok\<close> leave
  different statuses, and the form shows the status as it is.\<close>

theorem second_example_failures_differ:
  "status (fold perform2 (handleSubmit2_settled (Inl ''TypeError: Failed to fetch''))
       \<lparr>formData2 = form_object ''Ada'' ''ada@example.org'' ''Hello'', status = ''Sending...''\<rparr>)
     = ''An error occurred.''
   \<and> status (fold perform2 (handleSubmit2_settled (Inr \<lparr>ok = False, json = Inl ''SyntaxError''\<rparr>))
       \<lparr>formData2 = form_object ''Ada'' ''ada@example.org'' ''Hello'', status = ''Sending...''\<rparr>)
     = ''Failed to send message.''
   \<and> paragraphs (render2 (fold perform2 (handleSubmit2_settled (Inl ''TypeError: Failed to fetch''))
       \<lparr>formData2 = form_object ''Ada'' ''ada@example.org'' ''Hello'', status = ''Sending...''\<rparr>))
     \<noteq> paragraphs (render2
        (fold perform2 (handleSubmit2_settled (Inr \<lparr>ok = False, json = Inl ''SyntaxError''\<rparr>))
       \<lparr>formData2 = form_object ''Ada'' ''ada@example.org'' ''Hello'', status = ''Sending...''\<rparr>))"
  by (simp add: render2_def)

text \<open>
  Claim C3, amended. When \<open>fetch\<close> throws, \<open>handleSubmit\<close> changes no field and sets a
  failure status. In the first example the status is \<open>'error'\<close>, and the state and the
  rendered form are the same as after a response that is not \<open>ok\<close>. In the second example
  the fields are kept in both cases as well, but the status shown is
  \<open>'An error occurred.'\<close> after a thrown \<open>fetch\<close> and \<open>'Failed to send message.'\<close> after a
  response that is not \<open>ok\<close>.
\<close>

theorem transport_failure:
  "\<not> ok response \<Longrightarrow>
     fold perform (handleSubmit_settled (Inl error)) c = c\<lparr>submissionStatus := Some ''error''\<rparr>
   \<and> fold perform (handleSubmit_settled (Inr response)) c = c\<lparr>submissionStatus := Some ''error''\<rparr>
   \<and> render (fold perform (handleSubmit_settled (Inl error)) c)
       = render (fold perform (handleSubmit_settled (Inr response)) c)
   \<and> fold perform2 (handleSubmit2_settled (Inl error)) c2 = c2\<lparr>status := ''An error occurred.''\<rparr>
   \<and> fold perform2 (handleSubmit2_settled (Inr response)) c2
       = c2\<lparr>status := ''Failed to send message.''\<rparr>"
  by (simp add: perform_json handleSubmit_catch_def)

theorem transport_failure_witness:
  "\<not> ok \<lparr>ok = False, json = Inl ''SyntaxError''\<rparr>
   \<and> fold perform (handleSubmit_settled (Inl ''TypeError: Failed to fetch''))
         \<lparr>formData = form_object ''Ada'' ''ada@example.org'' ''Hello'',
           submissionStatus = Some ''submitting''\<rparr>
       = \<lparr>formData = form_object ''Ada'' ''ada@example.org'' ''Hello'',
           submissionStatus = Some ''error''\<rparr>
   \<and> fold perform (handleSubmit_settled (Inr \<lparr>ok = False, json = Inl ''SyntaxError''\<rparr>))
         \<lparr>formData = form_object ''Ada'' ''ada@example.org'' ''Hello'',
           submissionStatus = Some ''submitting''\<rparr>
       = \<lparr>formData = form_object ''Ada'' ''ada@example.org'' ''Hello'',
           submissionStatus = Some ''error''\<rparr>"
proof -
  have h: "\<not> ok \<lparr>ok = False, json = Inl ''SyntaxError''\<rparr>" by simp
  from transport_failure [OF h, of "''TypeError: Failed to fetch''"
      "\<lparr>formData = form_object ''Ada'' ''ada@example.org'' ''Hello'',
        submissionStatus = Some ''submitting''\<rparr>"]
  show ?thesis using h by simp
qed

text \<open>
  Claim C10. When the response is not \<open>ok\<close>, settling the \<open>fetch\<close> changes nothing in the
  component and leaves the invocation suspended at \<open>await response.json()\<close>; when that
  promise settles, whether it resolves with the parsed body or rejects, the status
  becomes \<open>'error'\<close> and the fields are as before. A rejection runs the \<open>catch\<close> block,
  which sets \<open>'error'\<close> too.
\<close>

theorem error_body_parse:
  assumes "\<not> ok response" and "i < length (suspended s)" and "suspended s ! i = AwaitFetch"
  shows
    "fire s (FetchSettled i (Inr response))
       = Some (s\<lparr>suspended := (suspended s)[i := AwaitJson response]\<rparr>)
     \<and> (\<exists>s'. fire (s\<lparr>suspended := (suspended s)[i := AwaitJson response]\<rparr>) (JsonSettled i) = Some s'
           \<and> submissionStatus (component s') = Some ''error''
           \<and> formData (component s') = formData (component s))
     \<and> handleSubmit_settled (Inr response) = handleSubmit_json (json response)
     \<and> handleSubmit_json (Inl error) = handleSubmit_catch error
     \<and> submissionStatus (fold perform (handleSubmit_json (Inr errorData)) c) = Some ''error''
     \<and> submissionStatus (fold perform (handleSubmit_catch error) c) = Some ''error''"
  using assms by (simp add: resume_def perform_json handleSubmit_catch_def)

theorem error_body_parse_witness:
  "fire \<lparr>component = \<lparr>formData = form_object ''Ada'' ''ada@example.org'' ''Hello'',
                       submissionStatus = Some ''submitting''\<rparr>,
         suspended = [AwaitFetch]\<rparr>
     (FetchSettled 0 (Inr \<lparr>ok = False, json = Inl ''SyntaxError: Unexpected token''\<rparr>))
     = Some \<lparr>component = \<lparr>formData = form_object ''Ada'' ''ada@example.org'' ''Hello'',
                           submissionStatus = Some ''submitting''\<rparr>,
             suspended = [AwaitJson \<lparr>ok = False, json = Inl ''SyntaxError: Unexpected token''\<rparr>]\<rparr>
   \<and> fire \<lparr>component = \<lparr>formData = form_object ''Ada'' ''ada@example.org'' ''Hello'',
                           submissionStatus = Some ''submitting''\<rparr>,
             suspended = [AwaitJson \<lparr>ok = False, json = Inl ''SyntaxError: Unexpected token''\<rparr>]\<rparr>
       (JsonSettled 0)
     = Some \<lparr>component = \<lparr>formData = form_object ''Ada'' ''ada@example.org'' ''Hello'',
                           submissionStatus = Some ''error''\<rparr>,
             suspended = []\<rparr>"
proof -
  have h: "\<not> ok \<lparr>ok = False, json = Inl ''SyntaxError: Unexpected token''\<rparr>" by simp
  have a: "0 < length (suspended \<lparr>component = \<lparr>formData = form_object ''Ada'' ''ada@example.org'' ''Hello'',
                       submissionStatus = Some ''submitting''\<rparr>,
         suspended = [AwaitFetch]\<rparr>)"
    by simp
  have b: "suspended \<lparr>component = \<lparr>formData = form_object ''Ada'' ''ada@example.org'' ''Hello'',
                       submissionStatus = Some ''submitting''\<rparr>,
         suspended = [AwaitFetch]\<rparr> ! 0 = AwaitFetch"
    by simp
  from error_body_parse [OF h a b]
  show ?thesis
    by (simp add: resume_def remove_nth_def handleSubmit_catch_def)
qed


section \<open>The request\<close>

text \<open>
  Claim C6. In every state the form reaches, in both examples, \<open>handleSubmit\<close> first
  calls \<open>e.preventDefault()\<close>, then sets the status to \<open>'submitting'\<close> (the second
  example's \<open>'Sending...'\<close>), then issues one \<open>fetch\<close>: a \<open>POST\<close> to the endpoint written in
  the handler, with the header \<open>Content-Type: application/json\<close> and as body the JSON
  object of exactly the three fields \<open>name\<close>, \<open>email\<close>, \<open>message\<close> of the form data.
  Whatever the request settles to, the whole handler issues that one request and no
  other.
\<close>

theorem submit_request:
  assumes "run System_init evs = Some s" and "run2 System2_init evs2 = Some s2"
  shows
    "(\<exists>n e m.
        formData (component s) = [(''name'', n), (''email'', e), (''message'', m)]
      \<and> handleSubmit_start (component s) =
          [PreventDefault,
           SetSubmissionStatus (Some ''submitting''),
           Fetch (spec_request ''YOUR_BACKEND_API_ENDPOINT/submit-form'' n e m)]
      \<and> fetches (handleSubmit (component s) r) =
          [spec_request ''YOUR_BACKEND_API_ENDPOINT/submit-form'' n e m])
     \<and> (\<exists>n e m.
        formData2 (component2 s2) = [(''name'', n), (''email'', e), (''message'', m)]
      \<and> handleSubmit2_start (component2 s2) =
          [PreventDefault,
           SetStatus ''Sending...'',
           Fetch (spec_request ''http://localhost:5000/contact'' n e m)]
      \<and> fetches (handleSubmit2 (component2 s2) r2) =
          [spec_request ''http://localhost:5000/contact'' n e m])"
proof -
  from reachable_inv [OF assms(1)]
  have "map fst (formData (component s)) = [''name'', ''email'', ''message'']"
    by (simp add: System_inv_def)
  from three_fields [OF this] obtain n e m
    where fd: "formData (component s) = form_object n e m"
    by blast
  from reachable_inv2 [OF assms(2)]
  have "map fst (formData2 (component2 s2)) = [''name'', ''email'', ''message'']"
    by (simp add: System2_inv_def)
  from three_fields [OF this] obtain n2 e2 m2
    where fd2: "formData2 (component2 s2) = form_object n2 e2 m2"
    by blast
  have a: "handleSubmit_start (component s) =
          [PreventDefault,
           SetSubmissionStatus (Some ''submitting''),
           Fetch (spec_request ''YOUR_BACKEND_API_ENDPOINT/submit-form'' n e m)]"
    by (simp only: handleSubmit_start_def fd JSON_stringify_object spec_request_def)
  have b: "handleSubmit2_start (component2 s2) =
          [PreventDefault,
           SetStatus ''Sending...'',
           Fetch (spec_request ''http://localhost:5000/contact'' n2 e2 m2)]"
    by (simp only: handleSubmit2_start_def fd2 JSON_stringify_object spec_request_def)
  have a': "fetches (handleSubmit (component s) r) =
          [spec_request ''YOUR_BACKEND_API_ENDPOINT/submit-form'' n e m]"
    unfolding handleSubmit_def fetches_append fetches_settled a by (simp add: fetches_def)
  have b': "fetches (handleSubmit2 (component2 s2) r2) =
          [spec_request ''http://localhost:5000/contact'' n2 e2 m2]"
    unfolding handleSubmit2_def fetches_append fetches_settled2 b by (simp add: fetches_def)
  from fd a a' have A: "\<exists>n e m.
        formData (component s) = [(''name'', n), (''email'', e), (''message'', m)]
      \<and> handleSubmit_start (component s) =
          [PreventDefault,
           SetSubmissionStatus (Some ''submitting''),
           Fetch (spec_request ''YOUR_BACKEND_API_ENDPOINT/submit-form'' n e m)]
      \<and> fetches (handleSubmit (component s) r) =
          [spec_request ''YOUR_BACKEND_API_ENDPOINT/submit-form'' n e m]"
    unfolding form_object_def by blast
  from fd2 b b' have B: "\<exists>n e m.
        formData2 (component2 s2) = [(''name'', n), (''email'', e), (''message'', m)]
      \<and> handleSubmit2_start (component2 s2) =
          [PreventDefault,
           SetStatus ''Sending...'',
           Fetch (spec_request ''http://localhost:5000/contact'' n e m)]
      \<and> fetches (handleSubmit2 (component2 s2) r2) =
          [spec_request ''http://localhost:5000/contact'' n e m]"
    unfolding form_object_def by blast
  from A B show ?thesis by (rule conjI)
qed

theorem submit_request_witness:
  "run System_init
     [Change \<lparr>target_name = ''message'', target_value = ''Say \"hi\"''\<rparr>,
      Change \<lparr>target_name = ''name'', target_value = ''Ada''\<rparr>,
      Change \<lparr>target_name = ''email'', target_value = ''ada@example.org''\<rparr>]
     = Some \<lparr>component = \<lparr>formData = form_object ''Ada'' ''ada@example.org'' ''Say \"hi\"'',
                           submissionStatus = None\<rparr>,
             suspended = []\<rparr>
   \<and> run2 System2_init [] = Some System2_init
   \<and> fetches (handleSubmit
        \<lparr>formData = form_object ''Ada'' ''ada@example.org'' ''Say \"hi\"'', submissionStatus = None\<rparr>
        (Inl ''TypeError: Failed to fetch''))
     = [\<lparr>url = ''YOUR_BACKEND_API_ENDPOINT/submit-form'',
         http_method = ''POST'',
         headers = [(''Content-Type'', ''application/json'')],
         body = ''{\"name\":\"Ada\",\"email\":\"ada@example.org\",\"message\":\"Say ''
                @ [CHR 0x5C, CHR 0x22] @ ''hi'' @ [CHR 0x5C, CHR 0x22] @ ''\"}''\<rparr>]
   \<and> fetches (handleSubmit2 (component2 System2_init) (Inl ''TypeError: Failed to fetch''))
     = [\<lparr>url = ''http://localhost:5000/contact'',
         http_method = ''POST'',
         headers = [(''Content-Type'', ''application/json'')],
         body = ''{\"name\":\"\",\"email\":\"\",\"message\":\"\"}''\<rparr>]"
proof -
  have h: "run System_init
     [Change \<lparr>target_name = ''message'', target_value = ''Say \"hi\"''\<rparr>,
      Change \<lparr>target_name = ''name'', target_value = ''Ada''\<rparr>,
      Change \<lparr>target_name = ''email'', target_value = ''ada@example.org''\<rparr>]
     = Some \<lparr>component = \<lparr>formData = form_object ''Ada'' ''ada@example.org'' ''Say \"hi\"'',
                           submissionStatus = None\<rparr>,
             suspended = []\<rparr>"
    by (simp add: System_init_def ContactForm_init_def form_object_def render_def
        handleChange_def)
  have h2: "run2 System2_init [] = Some System2_init" by simp
  from submit_request [OF h h2, of "Inl ''TypeError: Failed to fetch''"
      "Inl ''TypeError: Failed to fetch''"]
  have "fetches (handleSubmit
        \<lparr>formData = form_object ''Ada'' ''ada@example.org'' ''Say \"hi\"'', submissionStatus = None\<rparr>
        (Inl ''TypeError: Failed to fetch''))
     = [spec_request ''YOUR_BACKEND_API_ENDPOINT/submit-form'' ''Ada'' ''ada@example.org'' ''Say \"hi\"'']
    \<and> fetches (handleSubmit2 (component2 System2_init) (Inl ''TypeError: Failed to fetch''))
     = [spec_request ''http://localhost:5000/contact'' '''' '''' '''']"
    by (auto simp: form_object_def System2_init_def ContactForm2_init_def)
  with h h2 show ?thesis
    by (simp add: spec_request_def spec_body_def QuoteJSONString_def QuoteJSONChar_def)
qed


section \<open>One request at a time\<close>

text \<open>The second example: the form is filled and the button activated twice; two
  requests are outstanding.\<close>

theorem second_example_double_submit:
  "run2 System2_init (fill_and_submit2 ''Ada'' ''ada@example.org'' ''Hello'') =
     Some \<lparr>component2 = \<lparr>formData2 = form_object ''Ada'' ''ada@example.org'' ''Hello'',
                           status = ''Sending...''\<rparr>,
            in_flight = 1\<rparr>
   \<and> button_disabled (render2 \<lparr>formData2 = form_object ''Ada'' ''ada@example.org'' ''Hello'',
                               status = ''Sending...''\<rparr>) = False
   \<and> run2 System2_init (fill_and_submit2 ''Ada'' ''ada@example.org'' ''Hello'' @ [Submit2]) =
     Some \<lparr>component2 = \<lparr>formData2 = form_object ''Ada'' ''ada@example.org'' ''Hello'',
                           status = ''Sending...''\<rparr>,
            in_flight = 2\<rparr>"
  by (simp add: fill_and_submit2_def System2_init_def ContactForm2_init_def form_object_def
      render2_def handleChange2_def handleSubmit2_start_def)

text \<open>
  Claim C4, amended. In the first example, in every state the form reaches, the submit
  button is disabled exactly when the status is \<open>'submitting'\<close>, which is exactly when an
  invocation of \<open>handleSubmit\<close> is suspended on its request; at most one is ever
  suspended, and a submission is dispatched exactly when the status is not
  \<open>'submitting'\<close>. The second example's button has no \<open>disabled\<close> attribute: there a
  submission is dispatched in every state and adds an outstanding request.
\<close>

theorem single_outstanding_request:
  "run System_init evs = Some s \<Longrightarrow>
     button_disabled (render (component s)) = (submissionStatus (component s) = Some ''submitting'')
   \<and> (submissionStatus (component s) = Some ''submitting'') = (length (suspended s) = 1)
   \<and> length (suspended s) \<le> 1
   \<and> (fire s Submit = None) = (submissionStatus (component s) = Some ''submitting'')
   \<and> fire2 s2 Submit2 =
       Some \<lparr>component2 = fold perform2 (handleSubmit2_start (component2 s2)) (component2 s2),
              in_flight = Suc (in_flight s2)\<rparr>"
proof -
  assume "run System_init evs = Some s"
  from reachable_inv [OF this] show ?thesis
    by (auto simp: System_inv_def render_def render2_def)
qed

theorem single_outstanding_request_witness:
  "run System_init (fill_and_submit ''Ada'' ''ada@example.org'' ''Hello'') =
     Some \<lparr>component = \<lparr>formData = form_object ''Ada'' ''ada@example.org'' ''Hello'',
                          submissionStatus = Some ''submitting''\<rparr>,
            suspended = [AwaitFetch]\<rparr>
   \<and> fire \<lparr>component = \<lparr>formData = form_object ''Ada'' ''ada@example.org'' ''Hello'',
                          submissionStatus = Some ''submitting''\<rparr>,
            suspended = [AwaitFetch]\<rparr> Submit = None"
proof -
  have h: "run System_init (fill_and_submit ''Ada'' ''ada@example.org'' ''Hello'') =
     Some \<lparr>component = \<lparr>formData = form_object ''Ada'' ''ada@example.org'' ''Hello'',
                          submissionStatus = Some ''submitting''\<rparr>,
            suspended = [AwaitFetch]\<rparr>"
    by (rule run_init_fill_and_submit)
  from single_outstanding_request [OF h]
  have "fire \<lparr>component = \<lparr>formData = form_object ''Ada'' ''ada@example.org'' ''Hello'',
                          submissionStatus = Some ''submitting''\<rparr>,
            suspended = [AwaitFetch]\<rparr> Submit = None"
    by simp
  with h show ?thesis by (rule conjI)
qed


section \<open>The status\<close>

text \<open>The first example: after a successful submission the form is filled again and
  submitted; the status goes from \<open>'success'\<close> to \<open>'submitting'\<close>, which is none of the
  transitions the specification lists.\<close>

theorem resubmit_after_success:
  "run System_init
     (submission ''Ada'' ''ada@example.org'' ''Hello'' \<lparr>ok = True, json = Inr ''{}''\<rparr>
      @ [Change \<lparr>target_name = ''name'', target_value = ''Ada''\<rparr>,
         Change \<lparr>target_name = ''email'', target_value = ''ada@example.org''\<rparr>,
         Change \<lparr>target_name = ''message'', target_value = ''Hello again''\<rparr>])
     = Some \<lparr>component = \<lparr>formData = form_object ''Ada'' ''ada@example.org'' ''Hello again'',
                           submissionStatus = Some ''success''\<rparr>,
             suspended = []\<rparr>
   \<and> fire \<lparr>component = \<lparr>formData = form_object ''Ada'' ''ada@example.org'' ''Hello again'',
                           submissionStatus = Some ''success''\<rparr>,
             suspended = []\<rparr> Submit
     = Some \<lparr>component = \<lparr>formData = form_object ''Ada'' ''ada@example.org'' ''Hello again'',
                           submissionStatus = Some ''submitting''\<rparr>,
             suspended = [AwaitFetch]\<rparr>
   \<and> \<not> spec_transition (Some ''success'') (Some ''submitting'')"
  by (simp add: submission_def fill_and_submit_def System_init_def ContactForm_init_def
      form_object_def render_def handleChange_def handleSubmit_start_def handleSubmit_ok_def
      resume_def remove_nth_def spec_transition_def)

text \<open>
  Claim C5, amended. In the first example the status is, in every state the form
  reaches, one of \<open>null\<close> (idle), \<open>'submitting'\<close>, \<open>'success'\<close> and \<open>'error'\<close>, and an event
  either leaves the status as it is or changes it along one of
  \<open>idle \<rightarrow> submitting\<close>, \<open>submitting \<rightarrow> success\<close>, \<open>submitting \<rightarrow> error\<close>,
  \<open>error \<rightarrow> submitting\<close> and \<open>success \<rightarrow> submitting\<close> (a new submission after a
  successful one). In the second example the status is always one of the five strings
  \<open>''\<close>, \<open>'Sending...'\<close>, \<open>'Message sent successfully!'\<close>, \<open>'Failed to send message.'\<close> and
  \<open>'An error occurred.'\<close>.
\<close>

theorem status_transitions:
  assumes "run System_init evs = Some s" and "fire s ev = Some s'"
    and "run2 System2_init evs2 = Some s2"
  shows
    "submissionStatus (component s) \<in> {None, Some ''submitting'', Some ''success'', Some ''error''}
     \<and> (submissionStatus (component s') = submissionStatus (component s)
        \<or> spec_transition (submissionStatus (component s)) (submissionStatus (component s'))
        \<or> (submissionStatus (component s) = Some ''success''
            \<and> submissionStatus (component s') = Some ''submitting''))
     \<and> status (component2 s2) \<in> {'''', ''Sending...'', ''Message sent successfully!'',
                                   ''Failed to send message.'', ''An error occurred.''}"
proof -
  from reachable_inv [OF assms(1)] have i: "System_inv s" .
  from reachable_inv2 [OF assms(3)] have i2: "System2_inv s2" .
  have t: "submissionStatus (component s') = submissionStatus (component s)
        \<or> spec_transition (submissionStatus (component s)) (submissionStatus (component s'))
        \<or> (submissionStatus (component s) = Some ''success''
            \<and> submissionStatus (component s') = Some ''submitting'')"
  proof (cases ev)
    case (Change e)
    with assms(2) show ?thesis
      by (auto simp: handleChange_def split: if_splits)
  next
    case Submit
    with assms(2) i show ?thesis
      by (auto simp: System_inv_def handleSubmit_start_def render_def spec_transition_def
          split: if_splits)
  next
    case (FetchSettled k r)
    with assms(2) i show ?thesis
      by (auto simp: System_inv_def resume_def handleSubmit_ok_def handleSubmit_catch_def
          spec_transition_def split: if_splits sum.splits)
  next
    case (JsonSettled k)
    with assms(2) i show ?thesis
      by (auto simp: System_inv_def resume_def perform_json spec_transition_def
          split: if_splits await_point.splits)
  qed
  from i have m: "submissionStatus (component s)
      \<in> {None, Some ''submitting'', Some ''success'', Some ''error''}"
    by (auto simp: System_inv_def)
  from i2 have m2: "status (component2 s2)
      \<in> {'''', ''Sending...'', ''Message sent successfully!'',
         ''Failed to send message.'', ''An error occurred.''}"
    by (simp add: System2_inv_def)
  show ?thesis
    by (rule conjI [OF m conjI [OF t m2]])
qed

theorem status_transitions_witness:
  "run System_init (fill_and_submit ''Ada'' ''ada@example.org'' ''Hello'')
     = Some \<lparr>component = \<lparr>formData = form_object ''Ada'' ''ada@example.org'' ''Hello'',
                           submissionStatus = Some ''submitting''\<rparr>,
             suspended = [AwaitFetch]\<rparr>
   \<and> fire \<lparr>component = \<lparr>formData = form_object ''Ada'' ''ada@example.org'' ''Hello'',
                           submissionStatus = Some ''submitting''\<rparr>,
             suspended = [AwaitFetch]\<rparr>
       (FetchSettled 0 (Inl ''TypeError: Failed to fetch''))
     = Some \<lparr>component = \<lparr>formData = form_object ''Ada'' ''ada@example.org'' ''Hello'',
                           submissionStatus = Some ''error''\<rparr>,
             suspended = []\<rparr>
   \<and> run2 System2_init (fill_and_submit2 ''Ada'' ''ada@example.org'' ''Hello'')
     = Some \<lparr>component2 = \<lparr>formData2 = form_object ''Ada'' ''ada@example.org'' ''Hello'',
                            status = ''Sending...''\<rparr>,
             in_flight = 1\<rparr>
   \<and> spec_transition (Some ''submitting'') (Some ''error'')"
proof -
  have h1: "run System_init (fill_and_submit ''Ada'' ''ada@example.org'' ''Hello'')
     = Some \<lparr>component = \<lparr>formData = form_object ''Ada'' ''ada@example.org'' ''Hello'',
                           submissionStatus = Some ''submitting''\<rparr>,
             suspended = [AwaitFetch]\<rparr>"
    by (rule run_init_fill_and_submit)
  have h2: "fire \<lparr>component = \<lparr>formData = form_object ''Ada'' ''ada@example.org'' ''Hello'',
                           submissionStatus = Some ''submitting''\<rparr>,
             suspended = [AwaitFetch]\<rparr>
       (FetchSettled 0 (Inl ''TypeError: Failed to fetch''))
     = Some \<lparr>component = \<lparr>formData = form_object ''Ada'' ''ada@example.org'' ''Hello'',
                           submissionStatus = Some ''error''\<rparr>,
             suspended = []\<rparr>"
    by (simp add: resume_def remove_nth_def handleSubmit_catch_def)
  have h3: "run2 System2_init (fill_and_submit2 ''Ada'' ''ada@example.org'' ''Hello'')
     = Some \<lparr>component2 = \<lparr>formData2 = form_object ''Ada'' ''ada@example.org'' ''Hello'',
                            status = ''Sending...''\<rparr>,
             in_flight = 1\<rparr>"
    by (rule run2_init_fill_and_submit2)
  from status_transitions [OF h1 h2 h3]
  have "spec_transition (Some ''submitting'') (Some ''error'')"
    by simp
  with h1 h2 h3 show ?thesis by blast
qed


section \<open>Repeated submissions\<close>

text \<open>
  Claim C8. From any state the first example reaches with no request outstanding,
  filling the form with \<open>n\<close>, \<open>e\<close>, \<open>m\<close>, submitting and receiving an \<open>ok\<close> response ends
  with the three fields empty and the status \<open>'success'\<close>; doing the same again from
  there passes through the same \<open>'submitting'\<close> state (so the same request body is
  sent) and ends in the same state as the first time.
\<close>

theorem repeated_success:
  assumes "run System_init evs = Some s0" and "suspended s0 = []" and "ok response"
  shows
    "run s0 (fill_and_submit n e m) =
       Some \<lparr>component = \<lparr>formData = [(''name'', n), (''email'', e), (''message'', m)],
                            submissionStatus = Some ''submitting''\<rparr>,
              suspended = [AwaitFetch]\<rparr>
     \<and> run s0 (submission n e m response) =
       Some \<lparr>component = \<lparr>formData = [(''name'', ''''), (''email'', ''''), (''message'', '''')],
                            submissionStatus = Some ''success''\<rparr>,
              suspended = []\<rparr>
     \<and> run \<lparr>component = \<lparr>formData = [(''name'', ''''), (''email'', ''''), (''message'', '''')],
                           submissionStatus = Some ''success''\<rparr>,
             suspended = []\<rparr> (fill_and_submit n e m) =
       Some \<lparr>component = \<lparr>formData = [(''name'', n), (''email'', e), (''message'', m)],
                            submissionStatus = Some ''submitting''\<rparr>,
              suspended = [AwaitFetch]\<rparr>
     \<and> run \<lparr>component = \<lparr>formData = [(''name'', ''''), (''email'', ''''), (''message'', '''')],
                           submissionStatus = Some ''success''\<rparr>,
             suspended = []\<rparr> (submission n e m response) =
       Some \<lparr>component = \<lparr>formData = [(''name'', ''''), (''email'', ''''), (''message'', '''')],
                            submissionStatus = Some ''success''\<rparr>,
              suspended = []\<rparr>
     \<and> run s0 (submission n e m response @ submission n e m response) =
         run s0 (submission n e m response)"
proof -
  from reachable_inv [OF assms(1)] assms(2)
  have k: "map fst (formData (component s0)) = [''name'', ''email'', ''message'']"
    and q: "submissionStatus (component s0) \<noteq> Some ''submitting''"
    by (simp_all add: System_inv_def)
  have a: "run s0 (fill_and_submit n e m) =
       Some \<lparr>component = \<lparr>formData = [(''name'', n), (''email'', e), (''message'', m)],
                            submissionStatus = Some ''submitting''\<rparr>,
              suspended = [AwaitFetch]\<rparr>"
    using run_fill_and_submit [OF k q, of n e m] assms(2) by (simp add: form_object_def)
  have b: "run \<lparr>component = \<lparr>formData = [(''name'', ''''), (''email'', ''''), (''message'', '''')],
                           submissionStatus = Some ''success''\<rparr>,
             suspended = []\<rparr> (fill_and_submit n e m) =
       Some \<lparr>component = \<lparr>formData = [(''name'', n), (''email'', e), (''message'', m)],
                            submissionStatus = Some ''submitting''\<rparr>,
              suspended = [AwaitFetch]\<rparr>"
    using run_fill_and_submit [of "\<lparr>component =
             \<lparr>formData = [(''name'', ''''), (''email'', ''''), (''message'', '''')],
               submissionStatus = Some ''success''\<rparr>,
             suspended = []\<rparr>" n e m]
    by (simp add: form_object_def)
  show ?thesis
    using assms(3)
    by (simp add: submission_def run_append a b resume_def remove_nth_def handleSubmit_ok_def
        form_object_def)
qed

theorem repeated_success_witness:
  "run System_init [] = Some System_init
   \<and> suspended System_init = []
   \<and> ok \<lparr>ok = True, json = Inr ''{}''\<rparr>
   \<and> run System_init
       (submission ''Ada'' ''ada@example.org'' ''Hello'' \<lparr>ok = True, json = Inr ''{}''\<rparr>
        @ submission ''Ada'' ''ada@example.org'' ''Hello'' \<lparr>ok = True, json = Inr ''{}''\<rparr>)
     = Some \<lparr>component = \<lparr>formData = [(''name'', ''''), (''email'', ''''), (''message'', '''')],
                           submissionStatus = Some ''success''\<rparr>,
             suspended = []\<rparr>"
proof -
  have h1: "run System_init [] = Some System_init" by simp
  have h2: "suspended System_init = []" by (simp add: System_init_def)
  have h3: "ok \<lparr>ok = True, json = Inr ''{}''\<rparr>" by simp
  from repeated_success [OF h1 h2 h3, of "''Ada''" "''ada@example.org''" "''Hello''"]
  have "run System_init
       (submission ''Ada'' ''ada@example.org'' ''Hello'' \<lparr>ok = True, json = Inr ''{}''\<rparr>
        @ submission ''Ada'' ''ada@example.org'' ''Hello'' \<lparr>ok = True, json = Inr ''{}''\<rparr>)
     = Some \<lparr>component = \<lparr>formData = [(''name'', ''''), (''email'', ''''), (''message'', '''')],
                           submissionStatus = Some ''success''\<rparr>,
             suspended = []\<rparr>"
    by simp
  with h1 h2 h3 show ?thesis by blast
qed


section \<open>The landing page\<close>

text \<open>
  Claim C7. \<open>App\<close> takes no props and holds no state, so every render is the one tree.
  Its text nodes are the title and the six fixed strings, each once, and its two
  \<open>img\<close> elements refer to the logo and to the hero image, each once.
\<close>

theorem App_fixed_content:
  "texts App = [''Broodpro'', ''Apply now'', ''Stay in'', ''school'', ''peeps'',
                ''And yes. We can help make that a reality.'', ''Join the program'']
   \<and> images App = [logo, heroImage]
   \<and> count_list (texts App) ''Stay in'' = 1
   \<and> count_list (texts App) ''school'' = 1
   \<and> count_list (texts App) ''peeps'' = 1
   \<and> count_list (texts App) ''And yes. We can help make that a reality.'' = 1
   \<and> count_list (texts App) ''Join the program'' = 1
   \<and> count_list (texts App) ''Apply now'' = 1
   \<and> count_list (images App) logo = 1
   \<and> count_list (images App) heroImage = 1"
proof -
  have t: "texts App = [''Broodpro'', ''Apply now'', ''Stay in'', ''school'', ''peeps'',
                ''And yes. We can help make that a reality.'', ''Join the program'']"
    by (simp add: App_def navButton_def)
  have i: "images App = [logo, heroImage]"
    by (simp add: App_def navButton_def)
  have d: "logo \<noteq> heroImage"
    by (simp add: logo_def heroImage_def)
  show ?thesis
    unfolding t i using d by simp
qed

end
